theory Spec2Isabelle
  imports Main "HOL-Library.Sublist"
begin

section \<open>The hostpath provisioner (main.go)\<close>

text \<open>
  The program is one Go file. Two methods carry its logic: \<open>Provision\<close> derives a
  directory name from a claim, creates the directory, opens its permissions and
  returns a volume object; \<open>Delete\<close> checks an ownership annotation and removes the
  directory. Both call into Go's standard library (\<open>path.Join\<close>, \<open>os.MkdirAll\<close>,
  \<open>os.Chmod\<close>, \<open>os.RemoveAll\<close>, \<open>os.Getenv\<close>, \<open>os.IsExist\<close>) and build values of
  Kubernetes API types. The embedding below follows the file top to bottom; the
  library parts the methods depend on are modelled first. Logging (\<open>klog\<close>) has no
  influence on results and is left out.
\<close>

subsection \<open>Go values: nil pointers, panics, errors\<close>

text \<open>
  A Go pointer is an \<open>option\<close>: \<open>None\<close> is \<open>nil\<close>. Dereferencing \<open>nil\<close> is a run-time
  panic, which leaves the method without a return value: the outcome \<open>Panic\<close>.
\<close>

datatype 'a exec = Panic | Return 'a

text \<open>
  Unix error numbers that the calls used here can report (a subset of
  \<open>syscall.Errno\<close>), and \<open>os.PathError\<close>, the error type of the \<open>os\<close> package: the
  operation, the path it failed on, and the cause.
\<close>

datatype Errno =
  EPERM | ENOENT | EIO | EACCES | EEXIST | ENOTDIR | EINVAL | ENOSPC | EROFS
  | ENOTEMPTY | EBUSY

record PathError =
  pe_Op :: string
  pe_Path :: string
  pe_Err :: Errno

text \<open>
  The non-nil values of Go's \<open>error\<close> interface that occur in the program: a
  \<open>*os.PathError\<close>, the result of \<open>errors.New\<close> and of \<open>errors.Wrap\<close> (package
  \<open>github.com/pkg/errors\<close>), and the controller library's \<open>*IgnoredError\<close>, by
  which a provisioner tells the controller that a volume is not its own. An \<open>error\<close>
  is such a value or \<open>nil\<close>.
\<close>

datatype errval =
  PathErr PathError
  | New string
  | Wrapped errval string
  | IgnoredError string

type_synonym error = "errval option"

text \<open>\<open>errors.Wrap(err, message)\<close> returns \<open>nil\<close> when \<open>err\<close> is \<open>nil\<close>.\<close>

definition Wrap :: "error \<Rightarrow> string \<Rightarrow> error" where
  "Wrap err message = (case err of None \<Rightarrow> None | Some e \<Rightarrow> Some (Wrapped e message))"

text \<open>
  \<open>os.IsExist\<close> looks through a \<open>*PathError\<close> (not through the wrappers of
  \<open>pkg/errors\<close>) and reports whether the cause is \<open>EEXIST\<close> or \<open>ENOTEMPTY\<close>; it is
  false for \<open>nil\<close>.
\<close>

fun IsExist :: "error \<Rightarrow> bool" where
  "IsExist (Some (PathErr e)) = (pe_Err e = EEXIST \<or> pe_Err e = ENOTEMPTY)"
| "IsExist _ = False"

subsection \<open>Package path: Clean and Join\<close>

text \<open>
  \<open>path.Clean\<close> of the Go standard library, as its source has it: a read position in
  the path, an output buffer \<open>out\<close> (the written part of the \<open>lazybuf\<close>, so that
  \<open>out.w\<close> is \<open>length out\<close>), and the index \<open>dotdot\<close> below which a \<open>..\<close> element may
  not backtrack. \<open>backtrack\<close> is the inner loop of the \<open>..\<close> case,
  \<open>for out.w > dotdot && out.index(out.w) != '/' { out.w-- }\<close>.
\<close>

function backtrack :: "nat \<Rightarrow> string \<Rightarrow> nat \<Rightarrow> nat" where
  "backtrack dotdot out w =
     (if w > dotdot \<and> out ! w \<noteq> CHR ''/'' then backtrack dotdot out (w - 1) else w)"
  by pat_completeness auto
termination
  by (relation "measure (\<lambda>(dotdot, out, w). w)") auto

declare backtrack.simps [simp del]

text \<open>
  The main loop \<open>for r < n\<close>; the last argument is the unread rest \<open>path[r:]\<close>. The
  four cases are the four cases of the \<open>switch\<close>: an empty element, a \<open>.\<close> element, a
  \<open>..\<close> element (backtrack, or append \<open>..\<close> when the path is not rooted, or nothing),
  and a real element, copied up to the next slash.
\<close>

function cleanLoop :: "bool \<Rightarrow> nat \<Rightarrow> string \<Rightarrow> string \<Rightarrow> nat \<times> string" where
  "cleanLoop rooted dotdot out [] = (dotdot, out)"
| "cleanLoop rooted dotdot out (c # rest) =
     (if c = CHR ''/'' then cleanLoop rooted dotdot out rest
      else if c = CHR ''.'' \<and> (rest = [] \<or> hd rest = CHR ''/'') then
        cleanLoop rooted dotdot out rest
      else if c = CHR ''.'' \<and> hd rest = CHR ''.''
              \<and> (tl rest = [] \<or> hd (tl rest) = CHR ''/'') then
        (if length out > dotdot then
           cleanLoop rooted dotdot
             (take (backtrack dotdot out (length out - 1)) out) (tl rest)
         else if \<not> rooted then
           (let out' = (if length out > 0 then out @ ''/'' else out) @ ''..''
            in cleanLoop rooted (length out') out' (tl rest))
         else cleanLoop rooted dotdot out (tl rest))
      else
        (let out' = (if rooted \<and> length out \<noteq> 1 \<or> \<not> rooted \<and> length out \<noteq> 0
                     then out @ ''/'' else out)
         in cleanLoop rooted dotdot
              (out' @ c # takeWhile (\<lambda>x. x \<noteq> CHR ''/'') rest)
              (dropWhile (\<lambda>x. x \<noteq> CHR ''/'') rest)))"
  by pat_completeness auto
termination
  by (relation "measure (\<lambda>(rooted, dotdot, out, r). length r)")
     (simp_all add: le_imp_less_Suc length_dropWhile_le)

declare cleanLoop.simps [simp del]

definition Clean :: "string \<Rightarrow> string" where
  "Clean path =
     (if path = [] then ''.''
      else
        (let rooted = (hd path = CHR ''/'');
             out = snd (cleanLoop rooted (if rooted then 1 else 0)
                          (if rooted then ''/'' else [])
                          (if rooted then tl path else path))
         in if out = [] then ''.'' else out))"

text \<open>
  \<open>path.Join\<close>: the empty string when every element is empty; otherwise the
  elements from the first non-empty one on, separated by slashes (\<open>joinBuf\<close> is the
  loop that fills \<open>buf\<close>), and the result cleaned.
\<close>

fun joinBuf :: "string \<Rightarrow> string list \<Rightarrow> string" where
  "joinBuf buf [] = buf"
| "joinBuf buf (e # es) =
     joinBuf (if length buf > 0 \<or> e \<noteq> []
              then (if length buf > 0 then buf @ ''/'' else buf) @ e
              else buf) es"

definition Join :: "string list \<Rightarrow> string" where
  "Join elem =
     (if sum_list (map length elem) = 0 then []
      else Clean (joinBuf [] elem))"

text \<open>
  A path element that \<open>Clean\<close> copies unchanged: not empty, without a slash, and
  neither \<open>.\<close> nor \<open>..\<close>.
\<close>

definition plainName :: "string \<Rightarrow> bool" where
  "plainName s = (s \<noteq> [] \<and> CHR ''/'' \<notin> set s \<and> s \<noteq> ''.'' \<and> s \<noteq> ''..'')"

subsection \<open>The environment and the configuration (lines 18--37)\<close>

text \<open>
  The process environment maps names to values; \<open>os.Getenv\<close> returns the value, or
  the empty string for a variable that is not set.
\<close>

type_synonym environ = "string \<rightharpoonup> string"

definition Getenv :: "environ \<Rightarrow> string \<Rightarrow> string" where
  "Getenv env key = (case env key of None \<Rightarrow> [] | Some v \<Rightarrow> v)"

definition defaultProvisionerName :: string where
  "defaultProvisionerName = ''hostpath''"

definition defaultPVDir :: string where
  "defaultPVDir = ''/data''"

definition defaultIdentity :: string where
  "defaultIdentity = ''hostpath-provisioner''"

definition getEnv :: "environ \<Rightarrow> string \<Rightarrow> string \<Rightarrow> string" where
  "getEnv env key defaultValue =
     (let v = Getenv env key in if v = [] then defaultValue else v)"

text \<open>
  The three package-level variables. Go evaluates their initialisers once, before
  \<open>main\<close> runs, in the environment \<open>env\<close> the process was started with; nothing in the
  file assigns to them afterwards. (The variables \<open>pvDir\<close> and \<open>identity\<close> share their
  names with the fields of the provisioner struct, hence the suffix.)
\<close>

definition provisionerName :: "environ \<Rightarrow> string" where
  "provisionerName env = getEnv env ''PROVISIONER_NAME'' defaultProvisionerName"

definition pvDir_var :: "environ \<Rightarrow> string" where
  "pvDir_var env = getEnv env ''PROVISIONER_DIR'' defaultPVDir"

definition identity_var :: "environ \<Rightarrow> string" where
  "identity_var env = getEnv env ''PROVISIONER_ISSUER'' defaultIdentity"

record hostPathProvisioner =
  pvDir :: string
  identity :: string

text \<open>The provisioner that \<open>main\<close> builds from the variables (lines 121--124).\<close>

definition main_provisioner :: "environ \<Rightarrow> hostPathProvisioner" where
  "main_provisioner env = \<lparr>pvDir = pvDir_var env, identity = identity_var env\<rparr>"

subsection \<open>Kubernetes API objects\<close>

text \<open>
  The fields of the API types that the two methods read or write; every other
  field of a constructed object has its zero value. Go's embedded structs are
  record extensions: a claim and a volume both extend \<open>ObjectMeta\<close>, and a volume's
  spec extends \<open>PersistentVolumeSource\<close>. String-typed enumerations (access modes,
  reclaim policy, resource names) are strings, Go maps are partial maps (a nil map
  is the empty one), and indexing a map with a missing key gives the zero value.
  A \<open>resource.Quantity\<close> is copied, never inspected: its number, scale and
  format.
\<close>

record Quantity =
  q_value :: int
  q_scale :: int
  q_format :: string

definition zeroQuantity :: Quantity where
  "zeroQuantity = \<lparr>q_value = 0, q_scale = 0, q_format = []\<rparr>"

type_synonym ResourceList = "string \<rightharpoonup> Quantity"

definition ResourceStorage :: string where
  "ResourceStorage = ''storage''"

definition index :: "ResourceList \<Rightarrow> string \<Rightarrow> Quantity" where
  "index m k = (case m k of None \<Rightarrow> zeroQuantity | Some q \<Rightarrow> q)"

record ObjectMeta =
  Name :: string
  Namespace :: string
  Annotations :: "string \<rightharpoonup> string"

record ResourceRequirements =
  Requests :: ResourceList

record PersistentVolumeClaimSpec =
  pvc_AccessModes :: "string list"
  Resources :: ResourceRequirements

record PersistentVolumeClaim = ObjectMeta +
  pvc_Spec :: PersistentVolumeClaimSpec

record HostPathVolumeSource =
  Path :: string

record PersistentVolumeSource =
  HostPath :: "HostPathVolumeSource option"

record PersistentVolumeSpec = PersistentVolumeSource +
  Capacity :: ResourceList
  AccessModes :: "string list"
  PersistentVolumeReclaimPolicy :: string

record PersistentVolume = ObjectMeta +
  Spec :: PersistentVolumeSpec

record StorageClass =
  ReclaimPolicy :: "string option"

record ProvisionOptions =
  StorageClass :: "StorageClass option"
  PVName :: string
  PVC :: "PersistentVolumeClaim option"

datatype ProvisioningState =
  ProvisioningFinished | ProvisioningInBackground | ProvisioningNoChange
  | ProvisioningReschedule

subsection \<open>The operating system\<close>

text \<open>
  The three file-system calls of package \<open>os\<close> that the methods make. What they do
  is the operating system's business, so the methods are modelled over any
  implementation: a state \<open>'w\<close> of the world outside the process and, for each call,
  a function from its arguments and the state to an error (\<open>None\<close> is \<open>nil\<close>) and the
  next state. A permission is the number of its bits: \<open>0777\<close> is 511.
\<close>

type_synonym FileMode = nat

record 'w OS =
  MkdirAll :: "string \<Rightarrow> FileMode \<Rightarrow> 'w \<Rightarrow> PathError option \<times> 'w"
  Chmod :: "string \<Rightarrow> FileMode \<Rightarrow> 'w \<Rightarrow> PathError option \<times> 'w"
  RemoveAll :: "string \<Rightarrow> 'w \<Rightarrow> PathError option \<times> 'w"

subsection \<open>Provision (lines 44--81)\<close>

text \<open>
  The method, statement by statement: the path, \<open>MkdirAll\<close> with its guard
  \<open>err != nil && !os.IsExist(err)\<close>, \<open>Chmod\<close>, and the volume literal, whose
  evaluation dereferences \<open>options.StorageClass\<close> and its \<open>ReclaimPolicy\<close>. The
  claim pointer \<open>options.PVC\<close> is dereferenced first of all, for the path.
\<close>

definition Provision ::
  "'w OS \<Rightarrow> hostPathProvisioner \<Rightarrow> ProvisionOptions \<Rightarrow> 'w
    \<Rightarrow> (PersistentVolume option \<times> ProvisioningState \<times> error) exec \<times> 'w" where
  "Provision os p options w =
     (case PVC options of
        None \<Rightarrow> (Panic, w)
      | Some pvc \<Rightarrow>
          (let pvPath = Join [pvDir p, Namespace pvc, Name pvc] in
           case MkdirAll os pvPath 511 w of
             (r, w1) \<Rightarrow>
               (let err = map_option PathErr r in
                if err \<noteq> None \<and> \<not> IsExist err
                then (Return (None, ProvisioningFinished, err), w1)
                else
                  (case Chmod os pvPath 511 w1 of
                     (r2, w2) \<Rightarrow>
                       (let err2 = map_option PathErr r2 in
                        if err2 \<noteq> None
                        then (Return (None, ProvisioningFinished, err2), w2)
                        else
                          (case StorageClass options of
                             None \<Rightarrow> (Panic, w2)
                           | Some sc \<Rightarrow>
                               (case ReclaimPolicy sc of
                                  None \<Rightarrow> (Panic, w2)
                                | Some policy \<Rightarrow>
                                    (Return
                                       (Some
                                          \<lparr>Name = PVName options,
                                           Namespace = [],
                                           Annotations =
                                             [''hostPathProvisionerIdentity'' \<mapsto> identity p],
                                           Spec =
                                             \<lparr>HostPath = Some \<lparr>Path = pvPath\<rparr>,
                                              Capacity =
                                                [ResourceStorage \<mapsto>
                                                   index (Requests (Resources (pvc_Spec pvc)))
                                                     ResourceStorage],
                                              AccessModes = pvc_AccessModes (pvc_Spec pvc),
                                              PersistentVolumeReclaimPolicy = policy\<rparr>\<rparr>,
                                        ProvisioningFinished, None),
                                     w2))))))))"

subsection \<open>Delete (lines 83--98)\<close>

text \<open>
  The annotation lookup with its two early returns, then \<open>RemoveAll\<close> on the path
  of the volume's \<open>HostPath\<close> source, a pointer that is dereferenced unchecked.
\<close>

definition Delete ::
  "'w OS \<Rightarrow> hostPathProvisioner \<Rightarrow> PersistentVolume option \<Rightarrow> 'w \<Rightarrow> error exec \<times> 'w" where
  "Delete os p volume w =
     (case volume of
        None \<Rightarrow> (Panic, w)
      | Some v \<Rightarrow>
          (case Annotations v ''hostPathProvisionerIdentity'' of
             None \<Rightarrow> (Return (Some (New ''identity annotation not found on PV'')), w)
           | Some ann \<Rightarrow>
               if ann \<noteq> identity p
               then (Return (Some (IgnoredError
                                     ''identity annotation on PV does not match ours'')), w)
               else
                 (case HostPath (Spec v) of
                    None \<Rightarrow> (Panic, w)
                  | Some hp \<Rightarrow>
                      (case RemoveAll os (Path hp) w of
                         (r, w') \<Rightarrow>
                           (let err = map_option PathErr r in
                            if err \<noteq> None
                            then (Return (Wrap err ''removing hostpath PV''), w')
                            else (Return None, w'))))))"

subsection \<open>Two operating systems to run the methods on\<close>

text \<open>
  A recording system: the state is the list of calls made so far, and every call
  is answered from a fixed script. It shows which calls a method makes.
\<close>

datatype syscall =
  SysMkdirAll string FileMode
  | SysChmod string FileMode
  | SysRemoveAll string

definition script_os :: "(syscall \<Rightarrow> PathError option) \<Rightarrow> syscall list OS" where
  "script_os reply =
     \<lparr>MkdirAll = (\<lambda>path perm calls.
        (reply (SysMkdirAll path perm), calls @ [SysMkdirAll path perm])),
      Chmod = (\<lambda>path mode calls.
        (reply (SysChmod path mode), calls @ [SysChmod path mode])),
      RemoveAll = (\<lambda>path calls.
        (reply (SysRemoveAll path), calls @ [SysRemoveAll path]))\<rparr>"

text \<open>
  A small file system: a partial map from file names to directories and plain
  files with their permission bits; there are no symbolic links, no mount points
  and no refusals for lack of permission. \<open>MkdirAll\<close> and \<open>Chmod\<close> take a name as
  written, which is exact for the cleaned paths that \<open>Provision\<close> hands them;
  \<open>RemoveAll\<close>, which \<open>Delete\<close> calls with whatever path a volume records, resolves
  its path element by element as the kernel does. The three calls follow the
  documentation and the Unix source of package \<open>os\<close>.
\<close>

datatype inode = Dir FileMode | File FileMode

type_synonym fs = "string \<rightharpoonup> inode"

text \<open>
  The parent that \<open>MkdirAll\<close> extracts: trailing separators are skipped, then the
  last element and one separator are cut off; empty when there is no parent to
  create.
\<close>

definition parentDir :: "string \<Rightarrow> string" where
  "parentDir path =
     rev (drop 1 (dropWhile (\<lambda>c. c \<noteq> CHR ''/'')
                    (dropWhile (\<lambda>c. c = CHR ''/'') (rev path))))"

text \<open>
  \<open>mkdir(2)\<close>: the name must be new and its parent an existing directory (a name
  without a parent lies in the root or the working directory).
\<close>

definition fs_Mkdir :: "string \<Rightarrow> FileMode \<Rightarrow> fs \<Rightarrow> PathError option \<times> fs" where
  "fs_Mkdir path perm fs =
     (if path = [] then (Some \<lparr>pe_Op = ''mkdir'', pe_Path = path, pe_Err = ENOENT\<rparr>, fs)
      else if fs path \<noteq> None
      then (Some \<lparr>pe_Op = ''mkdir'', pe_Path = path, pe_Err = EEXIST\<rparr>, fs)
      else if parentDir path = [] then (None, fs(path \<mapsto> Dir perm))
      else
        (case fs (parentDir path) of
           None \<Rightarrow> (Some \<lparr>pe_Op = ''mkdir'', pe_Path = path, pe_Err = ENOENT\<rparr>, fs)
         | Some (File m) \<Rightarrow>
             (Some \<lparr>pe_Op = ''mkdir'', pe_Path = path, pe_Err = ENOTDIR\<rparr>, fs)
         | Some (Dir m) \<Rightarrow> (None, fs(path \<mapsto> Dir perm))))"

text \<open>
  \<open>os.MkdirAll\<close>: nothing to do for an existing directory, \<open>ENOTDIR\<close> for an
  existing file; otherwise the parent is made first, then the directory itself,
  and a failure of that last step is forgiven when the name is a directory after
  all.
\<close>

function fs_MkdirAll :: "string \<Rightarrow> FileMode \<Rightarrow> fs \<Rightarrow> PathError option \<times> fs" where
  "fs_MkdirAll path perm fs =
     (case fs path of
        Some (Dir m) \<Rightarrow> (None, fs)
      | Some (File m) \<Rightarrow>
          (Some \<lparr>pe_Op = ''mkdir'', pe_Path = path, pe_Err = ENOTDIR\<rparr>, fs)
      | None \<Rightarrow>
          (case (if parentDir path \<noteq> [] then fs_MkdirAll (parentDir path) perm fs
                 else (None, fs)) of
             (Some e, fs1) \<Rightarrow> (Some e, fs1)
           | (None, fs1) \<Rightarrow>
               (case fs_Mkdir path perm fs1 of
                  (None, fs2) \<Rightarrow> (None, fs2)
                | (Some e, fs2) \<Rightarrow>
                    (case fs2 path of
                       Some (Dir m) \<Rightarrow> (None, fs2)
                     | _ \<Rightarrow> (Some e, fs2)))))"
  by pat_completeness auto
termination
proof (relation "measure (\<lambda>(path, perm, fs). length path)")
  show "wf (measure (\<lambda>(path, perm, fs). length path))"
    by simp
next
  fix path :: string and perm :: FileMode and fs :: fs
  assume "parentDir path \<noteq> []"
  then have "drop 1 (dropWhile (\<lambda>c. c \<noteq> CHR ''/'')
                       (dropWhile (\<lambda>c. c = CHR ''/'') (rev path))) \<noteq> []"
    by (simp add: parentDir_def)
  then have "length (parentDir path)
      < length (dropWhile (\<lambda>c. c \<noteq> CHR ''/'') (dropWhile (\<lambda>c. c = CHR ''/'') (rev path)))"
    by (simp add: parentDir_def)
  also have "\<dots> \<le> length (dropWhile (\<lambda>c. c = CHR ''/'') (rev path))"
    by (rule length_dropWhile_le)
  also have "\<dots> \<le> length (rev path)"
    by (rule length_dropWhile_le)
  finally show "((parentDir path, perm, fs), (path, perm, fs))
      \<in> measure (\<lambda>(path, perm, fs). length path)"
    by simp
qed

declare fs_MkdirAll.simps [simp del]

text \<open>\<open>chmod(2)\<close> on an existing name replaces its permission bits.\<close>

definition fs_Chmod :: "string \<Rightarrow> FileMode \<Rightarrow> fs \<Rightarrow> PathError option \<times> fs" where
  "fs_Chmod path mode fs =
     (case fs path of
        None \<Rightarrow> (Some \<lparr>pe_Op = ''chmod'', pe_Path = path, pe_Err = ENOENT\<rparr>, fs)
      | Some (Dir m) \<Rightarrow> (None, fs(path \<mapsto> Dir mode))
      | Some (File m) \<Rightarrow> (None, fs(path \<mapsto> File mode)))"

text \<open>
  Path resolution for \<open>RemoveAll\<close>. A path is read as its non-empty elements. A
  place reached during resolution is the list of names that lead to it from the
  root (for a path that starts with a slash) or from the working directory;
  \<open>nameOf\<close> is the name under which the file system holds it. The root and the
  working directory are directories and need no entry.
\<close>

function elements :: "string \<Rightarrow> string list" where
  "elements [] = []"
| "elements (c # cs) =
     (if c = CHR ''/'' then elements cs
      else (c # takeWhile (\<lambda>x. x \<noteq> CHR ''/'') cs)
             # elements (dropWhile (\<lambda>x. x \<noteq> CHR ''/'') cs))"
  by pat_completeness auto
termination
  by (relation "measure length") (simp_all add: le_imp_less_Suc length_dropWhile_le)

declare elements.simps [simp del]

fun joinElements :: "string list \<Rightarrow> string" where
  "joinElements [] = []"
| "joinElements [e] = e"
| "joinElements (e # f # es) = e @ ''/'' @ joinElements (f # es)"

definition nameOf :: "bool \<Rightarrow> string list \<Rightarrow> string" where
  "nameOf rooted dir = (if rooted then ''/'' else []) @ joinElements dir"

definition isDir :: "fs \<Rightarrow> bool \<Rightarrow> string list \<Rightarrow> bool" where
  "isDir fs rooted dir =
     (dir = [] \<or> (case fs (nameOf rooted dir) of Some (Dir m) \<Rightarrow> True | _ \<Rightarrow> False))"

text \<open>
  The kernel's walk from \<open>dir\<close> along the elements: every step starts in a
  directory (\<open>ENOTDIR\<close> otherwise); \<open>.\<close> stays, \<open>..\<close> goes up (the root is its own
  parent), a name must exist (\<open>ENOENT\<close> otherwise).
\<close>

fun walk :: "fs \<Rightarrow> bool \<Rightarrow> string list \<Rightarrow> string list \<Rightarrow> Errno + string list" where
  "walk fs rooted dir [] = Inr dir"
| "walk fs rooted dir (e # es) =
     (if \<not> isDir fs rooted dir then Inl ENOTDIR
      else if e = ''.'' then walk fs rooted dir es
      else if e = ''..'' then walk fs rooted (butlast dir) es
      else if fs (nameOf rooted (dir @ [e])) = None then Inl ENOENT
      else walk fs rooted (dir @ [e]) es)"

text \<open>
  \<open>splitPath\<close> of package \<open>os\<close>: all but one leading slash and the trailing slashes
  are dropped, and the rest is cut at its last slash into directory and base; the
  directory is \<open>.\<close> when there is no slash, and the root is the base \<open>/\<close>.
\<close>

fun dropLeadingSlashes :: "string \<Rightarrow> string" where
  "dropLeadingSlashes (a # b # cs) =
     (if a = CHR ''/'' \<and> b = CHR ''/'' then dropLeadingSlashes (b # cs) else a # b # cs)"
| "dropLeadingSlashes cs = cs"

definition dropTrailingSlashes :: "string \<Rightarrow> string" where
  "dropTrailingSlashes path =
     (case path of [] \<Rightarrow> [] | c # cs \<Rightarrow> c # rev (dropWhile (\<lambda>x. x = CHR ''/'') (rev cs)))"

definition splitPath :: "string \<Rightarrow> string \<times> string" where
  "splitPath path0 =
     (let path = dropTrailingSlashes (dropLeadingSlashes path0);
          r = rev (butlast path)
      in if CHR ''/'' \<notin> set r then (''.'', path)
         else
           (let d = rev (drop 1 (dropWhile (\<lambda>x. x \<noteq> CHR ''/'') r))
            in (if d = [] then ''/'' else d,
                rev (takeWhile (\<lambda>x. x \<noteq> CHR ''/'') r) @ [last path])))"

text \<open>
  What a removal takes away: the tree at a resolved name, or everything inside a
  directory that itself stays.
\<close>

definition inTree :: "string \<Rightarrow> string \<Rightarrow> bool" where
  "inTree name q = (q = name \<or> prefix (name @ ''/'') q)"

definition contents :: "bool \<Rightarrow> string list \<Rightarrow> string \<Rightarrow> bool" where
  "contents rooted dir q =
     (if dir = [] then q \<noteq> [] \<and> q \<noteq> ''/'' \<and> (rooted \<or> hd q \<noteq> CHR ''/'')
      else prefix (nameOf rooted dir @ ''/'') q)"

text \<open>
  \<open>os.RemoveAll\<close>: silent on the empty path; \<open>EINVAL\<close> for a path that is \<open>.\<close> or
  ends in \<open>/.\<close>. Otherwise the path is split, the directory part is resolved
  and the base is removed from it with everything below: no error when the base
  or a directory on the way does not exist; the error of the walk when a plain
  file stands on the way. The root, a final \<open>.\<close> that trailing slashes hide from
  the first test, and a final \<open>..\<close> cannot be removed themselves: the directory
  they denote is emptied and the \<open>rmdir\<close> error is returned.
\<close>

definition endsWithDot :: "string \<Rightarrow> bool" where
  "endsWithDot path =
     (path = ''.'' \<or>
      (length path \<ge> 2 \<and> path ! (length path - 1) = CHR ''.''
        \<and> path ! (length path - 2) = CHR ''/''))"

definition fs_RemoveAll :: "string \<Rightarrow> fs \<Rightarrow> PathError option \<times> fs" where
  "fs_RemoveAll path fs =
     (if path = [] then (None, fs)
      else if endsWithDot path
      then (Some \<lparr>pe_Op = ''RemoveAll'', pe_Path = path, pe_Err = EINVAL\<rparr>, fs)
      else
        (case splitPath path of
           (dirname, base) \<Rightarrow>
             (let rooted = (hd path = CHR ''/'') in
              if base = ''/''
              then (Some \<lparr>pe_Op = ''unlinkat'', pe_Path = dirname @ ''/'' @ base,
                           pe_Err = EBUSY\<rparr>,
                    (\<lambda>q. if contents True [] q then None else fs q))
              else
                (case walk fs rooted [] (elements dirname) of
                   Inl err \<Rightarrow>
                     if err = ENOENT then (None, fs)
                     else (Some \<lparr>pe_Op = ''open'', pe_Path = dirname, pe_Err = err\<rparr>, fs)
                 | Inr dir \<Rightarrow>
                     if \<not> isDir fs rooted dir
                     then (Some \<lparr>pe_Op = ''unlinkat'', pe_Path = dirname @ ''/'' @ base,
                                  pe_Err = ENOTDIR\<rparr>, fs)
                     else if base = ''.''
                     then (Some \<lparr>pe_Op = ''unlinkat'', pe_Path = dirname @ ''/'' @ base,
                                  pe_Err = EINVAL\<rparr>,
                           (\<lambda>q. if contents rooted dir q then None else fs q))
                     else if base = ''..''
                     then (Some \<lparr>pe_Op = ''unlinkat'', pe_Path = dirname @ ''/'' @ base,
                                  pe_Err = ENOTEMPTY\<rparr>,
                           (\<lambda>q. if contents rooted (butlast dir) q then None else fs q))
                     else
                       (case fs (nameOf rooted (dir @ [base])) of
                          None \<Rightarrow> (None, fs)
                        | Some n \<Rightarrow>
                            (None,
                             (\<lambda>q. if inTree (nameOf rooted (dir @ [base])) q then None
                                  else fs q)))))))"

definition fs_os :: "fs OS" where
  "fs_os = \<lparr>MkdirAll = fs_MkdirAll, Chmod = fs_Chmod, RemoveAll = fs_RemoveAll\<rparr>"

subsection \<open>Sample inputs\<close>

text \<open>
  The scenario of the specification: root \<open>/data\<close>, namespace \<open>ns1\<close>, claim \<open>pvc-a\<close>,
  identity \<open>hostpath-provisioner\<close>. The sample file system holds the volume's
  directory with one file in it, and a neighbour.
\<close>

definition sample_provisioner :: hostPathProvisioner where
  "sample_provisioner = \<lparr>pvDir = ''/data'', identity = ''hostpath-provisioner''\<rparr>"

definition sample_claim :: "string \<Rightarrow> string \<Rightarrow> PersistentVolumeClaim" where
  "sample_claim ns name =
     \<lparr>Name = name, Namespace = ns, Annotations = Map.empty,
      pvc_Spec =
        \<lparr>pvc_AccessModes = [''ReadWriteOnce''],
         Resources =
           \<lparr>Requests =
              [''storage'' \<mapsto> \<lparr>q_value = 5, q_scale = 9, q_format = ''DecimalSI''\<rparr>]\<rparr>\<rparr>\<rparr>"

definition sample_options :: "string \<Rightarrow> string \<Rightarrow> string option \<Rightarrow> ProvisionOptions" where
  "sample_options ns name policy =
     \<lparr>StorageClass = Some \<lparr>ReclaimPolicy = policy\<rparr>,
      PVName = ''pvc-0f3a'',
      PVC = Some (sample_claim ns name)\<rparr>"

definition sample_volume :: "(string \<rightharpoonup> string) \<Rightarrow> string \<Rightarrow> PersistentVolume" where
  "sample_volume ann path =
     \<lparr>Name = ''pvc-0f3a'', Namespace = [], Annotations = ann,
      Spec =
        \<lparr>HostPath = Some \<lparr>Path = path\<rparr>,
         Capacity = [''storage'' \<mapsto> \<lparr>q_value = 5, q_scale = 9, q_format = ''DecimalSI''\<rparr>],
         AccessModes = [''ReadWriteOnce''],
         PersistentVolumeReclaimPolicy = ''Delete''\<rparr>\<rparr>"


definition sample_fs :: fs where
  "sample_fs =
     [''/data'' \<mapsto> Dir 493,
      ''/data/ns1'' \<mapsto> Dir 511,
      ''/data/ns1/pvc-a'' \<mapsto> Dir 511,
      ''/data/ns1/pvc-a/db'' \<mapsto> File 420,
      ''/data/ns1/pvc-b'' \<mapsto> Dir 511]"

text \<open>
  Scripts for the recording system: one call is refused, every other succeeds.
\<close>

definition mkdir_denied :: "syscall \<Rightarrow> PathError option" where
  "mkdir_denied c =
     (case c of
        SysMkdirAll path perm \<Rightarrow> Some \<lparr>pe_Op = ''mkdir'', pe_Path = path, pe_Err = EACCES\<rparr>
      | _ \<Rightarrow> None)"

definition already_exists :: "syscall \<Rightarrow> PathError option" where
  "already_exists c =
     (case c of
        SysMkdirAll path perm \<Rightarrow> Some \<lparr>pe_Op = ''mkdir'', pe_Path = path, pe_Err = EEXIST\<rparr>
      | _ \<Rightarrow> None)"

definition chmod_denied :: "syscall \<Rightarrow> PathError option" where
  "chmod_denied c =
     (case c of
        SysChmod path mode \<Rightarrow> Some \<lparr>pe_Op = ''chmod'', pe_Path = path, pe_Err = EPERM\<rparr>
      | _ \<Rightarrow> None)"


section \<open>Auxiliary facts\<close>

subsection \<open>Cleaning across an element boundary\<close>

text \<open>
  The loop of \<open>Clean\<close> looks ahead only to the end of the current element, so a
  slash splits its work: cleaning \<open>xs/ys\<close> first runs over \<open>xs\<close> and then, from the
  state reached, over \<open>ys\<close>.
\<close>

lemma takeWhile_boundary:
  "takeWhile (\<lambda>x. x \<noteq> CHR ''/'') (rest @ CHR ''/'' # ys) = takeWhile (\<lambda>x. x \<noteq> CHR ''/'') rest"
  by (induction rest) simp_all

lemma dropWhile_boundary:
  "dropWhile (\<lambda>x. x \<noteq> CHR ''/'') (rest @ CHR ''/'' # ys)
     = dropWhile (\<lambda>x. x \<noteq> CHR ''/'') rest @ CHR ''/'' # ys"
  by (induction rest) simp_all

lemma cleanLoop_boundary:
  "cleanLoop rooted dotdot out (xs @ CHR ''/'' # ys)
     = (case cleanLoop rooted dotdot out xs of (dotdot', out') \<Rightarrow> cleanLoop rooted dotdot' out' ys)"
proof (induction rooted dotdot out xs rule: cleanLoop.induct)
  case (1 rooted dotdot out)
  show ?case by (simp add: cleanLoop.simps)
next
  case (2 rooted dotdot out c rest)
  note step = cleanLoop.simps(2) [of rooted dotdot out c rest]
    cleanLoop.simps(2) [of rooted dotdot out c "rest @ CHR ''/'' # ys"]
  show ?case
  proof (cases "c = CHR ''/''")
    case True
    with "2.IH"(1) show ?thesis
      unfolding append_Cons step by simp
  next
    case nslash: False
    show ?thesis
    proof (cases "c = CHR ''.'' \<and> (rest = [] \<or> hd rest = CHR ''/'')")
      case True
      with nslash "2.IH"(2) show ?thesis
        unfolding append_Cons step by (auto simp add: hd_append)
    next
      case ndot: False
      show ?thesis
      proof (cases "c = CHR ''.'' \<and> hd rest = CHR ''.''
                      \<and> (tl rest = [] \<or> hd (tl rest) = CHR ''/'')")
        case True
        with ndot have ne: "rest \<noteq> []" by auto
        from nslash ndot True ne "2.IH"(3,4,5) show ?thesis
          unfolding append_Cons step by (auto simp add: hd_append Let_def)
      next
        case False
        with nslash ndot "2.IH"(6) show ?thesis
          unfolding append_Cons step
          by (auto simp add: hd_append takeWhile_boundary dropWhile_boundary Let_def)
      qed
    qed
  qed
qed

lemma cleanLoop_plainName:
  assumes "plainName nm"
  shows "cleanLoop rooted dotdot out nm
    = (dotdot, (if rooted \<and> length out \<noteq> 1 \<or> \<not> rooted \<and> length out \<noteq> 0
                then out @ ''/'' else out) @ nm)"
proof -
  from assms obtain c rest where nm: "nm = c # rest"
    by (cases nm) (auto simp: plainName_def)
  from assms nm have c: "c \<noteq> CHR ''/''" and rest: "CHR ''/'' \<notin> set rest"
    by (auto simp: plainName_def)
  from rest have tw: "takeWhile (\<lambda>x. x \<noteq> CHR ''/'') rest = rest"
    and dw: "dropWhile (\<lambda>x. x \<noteq> CHR ''/'') rest = []"
    by (auto simp: takeWhile_eq_all_conv)
  from rest have h: "rest \<noteq> [] \<Longrightarrow> hd rest \<noteq> CHR ''/''"
    by (cases rest) auto
  from rest have h2: "rest \<noteq> [] \<Longrightarrow> tl rest \<noteq> [] \<Longrightarrow> hd (tl rest) \<noteq> CHR ''/''"
    by (cases rest; cases "tl rest") auto
  from assms nm have nd: "\<not> (c = CHR ''.'' \<and> rest = [])"
    by (auto simp: plainName_def)
  from assms nm have ndd: "\<not> (c = CHR ''.'' \<and> hd rest = CHR ''.'' \<and> rest \<noteq> [] \<and> tl rest = [])"
    by (cases rest) (auto simp: plainName_def)
  have "\<not> (c = CHR ''.'' \<and> (rest = [] \<or> hd rest = CHR ''/''))"
    using nd h by auto
  moreover have "\<not> (c = CHR ''.'' \<and> hd rest = CHR ''.''
      \<and> (tl rest = [] \<or> hd (tl rest) = CHR ''/''))"
    using nd ndd h2 by (cases "rest = []") auto
  ultimately show ?thesis
    unfolding nm cleanLoop.simps(2) [of rooted dotdot out c rest]
    using c by (auto simp add: tw dw Let_def cleanLoop.simps(1))
qed

lemma Clean_boundary:
  assumes "xs \<noteq> []"
  shows "Clean (xs @ CHR ''/'' # ys)
    = (let rooted = (hd xs = CHR ''/'');
           st = cleanLoop rooted (if rooted then 1 else 0) (if rooted then ''/'' else [])
                  (if rooted then tl xs else xs);
           out = snd (cleanLoop rooted (fst st) (snd st) ys)
       in if out = [] then ''.'' else out)"
  using assms
  by (simp add: Clean_def Let_def cleanLoop_boundary split: prod.splits)

lemma Clean_trailing_slash:
  assumes "xs \<noteq> []"
  shows "Clean (xs @ ''/'') = Clean xs"
  using assms by (simp add: Clean_boundary) (simp add: Clean_def Let_def cleanLoop.simps(1))

lemma Clean_double_slash:
  assumes "xs \<noteq> []"
  shows "Clean (xs @ CHR ''/'' # CHR ''/'' # ys) = Clean (xs @ CHR ''/'' # ys)"
  using assms by (simp add: Clean_boundary cleanLoop.simps(2) [of _ _ _ "CHR ''/''"])

lemma Clean_append_plainName:
  assumes "Clean xs = xs" and "xs \<noteq> ''/''" and "xs \<noteq> ''.''" and "plainName nm"
  shows "Clean (xs @ CHR ''/'' # nm) = xs @ CHR ''/'' # nm"
proof -
  from assms(1) have ne: "xs \<noteq> []"
    by (auto simp: Clean_def)
  define rooted where "rooted = (hd xs = CHR ''/'')"
  define st where "st = cleanLoop rooted (if rooted then 1 else 0)
    (if rooted then ''/'' else []) (if rooted then tl xs else xs)"
  from assms(1) ne have "(if snd st = [] then ''.'' else snd st) = xs"
    unfolding Clean_def Let_def st_def rooted_def by (simp only: if_False)
  with assms(3) have out: "snd st = xs"
    by (auto split: if_splits)
  have len: "rooted \<and> length xs \<noteq> 1 \<or> \<not> rooted \<and> length xs \<noteq> 0"
  proof (cases rooted)
    case True
    with ne assms(2) show ?thesis
      by (cases xs) (auto simp: rooted_def)
  next
    case False
    with ne show ?thesis by simp
  qed
  have "Clean (xs @ CHR ''/'' # nm)
      = (let out = snd (cleanLoop rooted (fst st) (snd st) nm)
         in if out = [] then ''.'' else out)"
    using ne by (simp add: Clean_boundary Let_def st_def rooted_def)
  also have "\<dots> = xs @ CHR ''/'' # nm"
    using len by (simp add: cleanLoop_plainName [OF assms(4)] out)
  finally show ?thesis .
qed

lemma Join_three_nonempty:
  assumes "root \<noteq> []"
  shows "Join [root, ns, name] = Clean (root @ CHR ''/'' # ns @ CHR ''/'' # name)"
  using assms by (simp add: Join_def)

lemma Join_plain:
  assumes "Clean root = root" and "root \<noteq> ''/''" and "root \<noteq> ''.''"
    and "plainName ns" and "plainName name"
  shows "Join [root, ns, name] = root @ ''/'' @ ns @ ''/'' @ name"
proof -
  from assms(1) have ne: "root \<noteq> []"
    by (auto simp: Clean_def)
  have 1: "Clean (root @ CHR ''/'' # ns) = root @ CHR ''/'' # ns"
    using assms(1-4) by (rule Clean_append_plainName)
  have 2: "root @ CHR ''/'' # ns \<noteq> ''/''" and 3: "root @ CHR ''/'' # ns \<noteq> ''.''"
    using ne by (cases root; simp)+
  have "Clean ((root @ CHR ''/'' # ns) @ CHR ''/'' # name) = (root @ CHR ''/'' # ns) @ CHR ''/'' # name"
    using 1 2 3 assms(5) by (rule Clean_append_plainName)
  with ne show ?thesis
    by (simp add: Join_three_nonempty)
qed

lemma Join_single: "Join [root] = (if root = [] then [] else Clean root)"
  by (simp add: Join_def)

lemma Join_drop_both: "Join [root, [], []] = Join [root]"
  by (cases "root = []")
    (simp_all add: Join_def Clean_double_slash Clean_trailing_slash)

lemma Join_drop_namespace: "Join [root, [], name] = Join [root, name]"
  by (cases "root = []")
    (simp_all add: Join_def Clean_double_slash)

lemma Join_drop_name: "Join [root, ns, []] = Join [root, ns]"
proof (cases "root = []")
  case True
  then show ?thesis
    by (cases "ns = []") (simp_all add: Join_def Clean_trailing_slash)
next
  case False
  then have "Clean ((root @ CHR ''/'' # ns) @ ''/'') = Clean (root @ CHR ''/'' # ns)"
    by (intro Clean_trailing_slash) simp
  with False show ?thesis
    by (simp add: Join_def)
qed

subsection \<open>The sample file system's calls\<close>

text \<open>
  \<open>fs_MkdirAll\<close> changes names no longer than its argument, never reports that
  something exists already, leaves a directory behind when it succeeds and does
  nothing to an existing one.
\<close>

lemma parentDir_shorter:
  assumes "parentDir path \<noteq> []"
  shows "length (parentDir path) < length path"
proof -
  let ?xs = "dropWhile (\<lambda>c. c \<noteq> CHR ''/'') (dropWhile (\<lambda>c. c = CHR ''/'') (rev path))"
  from assms have "drop 1 ?xs \<noteq> []"
    by (simp add: parentDir_def)
  then have "length (parentDir path) < length ?xs"
    by (simp add: parentDir_def)
  also have "\<dots> \<le> length (dropWhile (\<lambda>c. c = CHR ''/'') (rev path))"
    by (rule length_dropWhile_le)
  also have "\<dots> \<le> length (rev path)"
    by (rule length_dropWhile_le)
  finally show ?thesis by simp
qed

lemma fs_Mkdir_frame:
  "fs_Mkdir path perm fs = (r, fs') \<Longrightarrow> q \<noteq> path \<Longrightarrow> fs' q = fs q"
  by (auto simp: fs_Mkdir_def split: if_splits option.splits inode.splits)

lemma fs_MkdirAll_frame:
  "fs_MkdirAll path perm fs = (r, fs') \<Longrightarrow> length path < length q \<Longrightarrow> fs' q = fs q"
proof (induction path perm fs arbitrary: r fs' rule: fs_MkdirAll.induct)
  case (1 path perm fs)
  show ?case
  proof (cases "fs path")
    case (Some n)
    with "1.prems" show ?thesis
      by (subst (asm) fs_MkdirAll.simps) (auto split: inode.splits)
  next
    case None
    show ?thesis
    proof (cases "parentDir path = []")
      case True
      with None "1.prems" show ?thesis
        by (subst (asm) fs_MkdirAll.simps)
          (auto split: prod.splits option.splits inode.splits dest: fs_Mkdir_frame)
    next
      case False
      obtain r1 fs1 where p: "fs_MkdirAll (parentDir path) perm fs = (r1, fs1)"
        by (cases "fs_MkdirAll (parentDir path) perm fs")
      from False have "length (parentDir path) < length path"
        by (rule parentDir_shorter)
      with "1.prems" have "length (parentDir path) < length q"
        by simp
      with "1.IH" [OF None False p] have f1: "fs1 q = fs q" .
      from "1.prems" have "q \<noteq> path" by auto
      with None False p f1 "1.prems"(1) show ?thesis
        by (subst (asm) fs_MkdirAll.simps)
          (auto split: prod.splits option.splits inode.splits dest: fs_Mkdir_frame)
    qed
  qed
qed

lemma fs_Mkdir_error:
  "fs_Mkdir path perm fs = (Some e, fs') \<Longrightarrow>
     fs' = fs \<and> (pe_Err e = EEXIST \<longrightarrow> fs path \<noteq> None) \<and> pe_Err e \<noteq> ENOTEMPTY"
  by (auto simp: fs_Mkdir_def split: if_splits option.splits inode.splits)

lemma fs_MkdirAll_not_exist:
  "fs_MkdirAll path perm fs = (Some e, fs') \<Longrightarrow> \<not> IsExist (Some (PathErr e))"
proof (induction path perm fs arbitrary: e fs' rule: fs_MkdirAll.induct)
  case (1 path perm fs)
  show ?case
  proof (cases "fs path")
    case (Some n)
    with "1.prems" show ?thesis
      by (subst (asm) fs_MkdirAll.simps) (auto split: inode.splits)
  next
    case None
    show ?thesis
    proof (cases "parentDir path = []")
      case True
      with None "1.prems" show ?thesis
        by (subst (asm) fs_MkdirAll.simps)
          (auto split: prod.splits option.splits inode.splits dest!: fs_Mkdir_error)
    next
      case False
      obtain r1 fs1 where p: "fs_MkdirAll (parentDir path) perm fs = (r1, fs1)"
        by (cases "fs_MkdirAll (parentDir path) perm fs")
      from False have "length (parentDir path) < length path"
        by (rule parentDir_shorter)
      with p have f1: "fs1 path = fs path"
        by (rule fs_MkdirAll_frame)
      show ?thesis
      proof (cases r1)
        case (Some e1)
        with None False p "1.prems" have "e = e1"
          by (subst (asm) fs_MkdirAll.simps) simp
        with "1.IH" [OF None False] p Some show ?thesis by simp
      next
        case rn: None
        with None False p f1 "1.prems" show ?thesis
          by (subst (asm) fs_MkdirAll.simps)
            (auto split: prod.splits option.splits inode.splits dest!: fs_Mkdir_error)
      qed
    qed
  qed
qed

lemma fs_Mkdir_ok:
  "fs_Mkdir path perm fs = (None, fs') \<Longrightarrow> fs' = fs(path \<mapsto> Dir perm)"
  by (auto simp: fs_Mkdir_def split: if_splits option.splits inode.splits)

lemma fs_MkdirAll_makes_dir:
  "fs_MkdirAll path perm fs = (None, fs') \<Longrightarrow> \<exists>m. fs' path = Some (Dir m)"
  by (subst (asm) fs_MkdirAll.simps)
    (auto split: prod.splits option.splits inode.splits if_splits dest!: fs_Mkdir_ok)

lemma fs_MkdirAll_existing:
  "fs path = Some (Dir m) \<Longrightarrow> fs_MkdirAll path perm fs = (None, fs)"
  by (subst fs_MkdirAll.simps) simp

lemma fs_Chmod_ok:
  "fs_Chmod path mode fs = (None, fs') \<Longrightarrow> fs path = Some (Dir m) \<Longrightarrow>
     fs' = fs(path \<mapsto> Dir mode)"
  by (auto simp: fs_Chmod_def split: option.splits inode.splits)

lemma fs_Chmod_Dir:
  "fs path = Some (Dir m) \<Longrightarrow> fs_Chmod path mode fs = (None, fs(path \<mapsto> Dir mode))"
  by (simp add: fs_Chmod_def)

subsection \<open>The paths through Provision and Delete\<close>

lemma Provision_success_cases:
  assumes "Provision os p options w = (Return (Some pv, st, err), w')"
  obtains pvc sc policy r w1 where
    "PVC options = Some pvc" "StorageClass options = Some sc" "ReclaimPolicy sc = Some policy"
    "MkdirAll os (Join [pvDir p, Namespace pvc, Name pvc]) 511 w = (r, w1)"
    "r = None \<or> IsExist (map_option PathErr r)"
    "Chmod os (Join [pvDir p, Namespace pvc, Name pvc]) 511 w1 = (None, w')"
    "st = ProvisioningFinished" "err = None"
    "pv = \<lparr>Name = PVName options, Namespace = [],
           Annotations = [''hostPathProvisionerIdentity'' \<mapsto> identity p],
           Spec = \<lparr>HostPath = Some \<lparr>Path = Join [pvDir p, Namespace pvc, Name pvc]\<rparr>,
                   Capacity = [ResourceStorage \<mapsto>
                       index (Requests (Resources (pvc_Spec pvc))) ResourceStorage],
                   AccessModes = pvc_AccessModes (pvc_Spec pvc),
                   PersistentVolumeReclaimPolicy = policy\<rparr>\<rparr>"
  using assms
  by (auto simp: Provision_def Let_def split: option.splits prod.splits if_splits)

lemma Provision_prepared:
  assumes "PVC options = Some pvc" and "StorageClass options = Some sc"
    and "ReclaimPolicy sc = Some policy"
    and "MkdirAll os (Join [pvDir p, Namespace pvc, Name pvc]) 511 w = (r, w1)"
    and "r = None \<or> IsExist (map_option PathErr r)"
    and "Chmod os (Join [pvDir p, Namespace pvc, Name pvc]) 511 w1 = (None, w2)"
  shows "Provision os p options w =
    (Return (Some \<lparr>Name = PVName options, Namespace = [],
           Annotations = [''hostPathProvisionerIdentity'' \<mapsto> identity p],
           Spec = \<lparr>HostPath = Some \<lparr>Path = Join [pvDir p, Namespace pvc, Name pvc]\<rparr>,
                   Capacity = [ResourceStorage \<mapsto>
                       index (Requests (Resources (pvc_Spec pvc))) ResourceStorage],
                   AccessModes = pvc_AccessModes (pvc_Spec pvc),
                   PersistentVolumeReclaimPolicy = policy\<rparr>\<rparr>,
             ProvisioningFinished, None), w2)"
  using assms by (auto simp: Provision_def Let_def)

lemma Provision_IsExist_ignored:
  assumes "PVC options = Some pvc"
    and "MkdirAll os (Join [pvDir p, Namespace pvc, Name pvc]) 511 w = (Some e, w1)"
    and "IsExist (Some (PathErr e))"
  shows "Provision os p options w
    = Provision (os\<lparr>MkdirAll := \<lambda>path perm w. (None, w1)\<rparr>) p options w"
  using assms by (simp add: Provision_def Let_def)

lemma Provision_descriptor_determined:
  assumes "Provision os p options w = (Return (Some pv, st, err), w')"
    and "Provision os' p options v = (Return (Some pv', st', err'), v')"
  shows "pv' = pv"
  using assms
  by (elim Provision_success_cases) simp

lemma Provision_fs_existing:
  assumes "PVC options = Some pvc" and "StorageClass options = Some sc"
    and "ReclaimPolicy sc = Some policy"
    and "fs (Join [pvDir p, Namespace pvc, Name pvc]) = Some (Dir m)"
  shows "\<exists>pv. Provision fs_os p options fs =
    (Return (Some pv, ProvisioningFinished, None),
     fs(Join [pvDir p, Namespace pvc, Name pvc] \<mapsto> Dir 511))"
proof -
  let ?path = "Join [pvDir p, Namespace pvc, Name pvc]"
  from assms(4) have mk: "MkdirAll fs_os ?path 511 fs = (None, fs)"
    by (simp add: fs_os_def fs_MkdirAll_existing)
  from assms(4) have ch: "Chmod fs_os ?path 511 fs = (None, fs(?path \<mapsto> Dir 511))"
    by (simp add: fs_os_def fs_Chmod_Dir)
  from Provision_prepared [OF assms(1-3) mk _ ch] show ?thesis
    by simp
qed

lemma Provision_fs_retry:
  assumes "Provision fs_os p options fs = (Return (Some pv, st, err), fs')"
  shows "Provision fs_os p options fs' = (Return (Some pv, ProvisioningFinished, None), fs')"
proof -
  from assms obtain pvc sc policy r fs1 where
    pvc: "PVC options = Some pvc" and sc: "StorageClass options = Some sc"
    and policy: "ReclaimPolicy sc = Some policy"
    and mk: "MkdirAll fs_os (Join [pvDir p, Namespace pvc, Name pvc]) 511 fs = (r, fs1)"
    and r: "r = None \<or> IsExist (map_option PathErr r)"
    and ch: "Chmod fs_os (Join [pvDir p, Namespace pvc, Name pvc]) 511 fs1 = (None, fs')"
    and pv: "pv = \<lparr>Name = PVName options, Namespace = [],
           Annotations = [''hostPathProvisionerIdentity'' \<mapsto> identity p],
           Spec = \<lparr>HostPath = Some \<lparr>Path = Join [pvDir p, Namespace pvc, Name pvc]\<rparr>,
                   Capacity = [ResourceStorage \<mapsto>
                       index (Requests (Resources (pvc_Spec pvc))) ResourceStorage],
                   AccessModes = pvc_AccessModes (pvc_Spec pvc),
                   PersistentVolumeReclaimPolicy = policy\<rparr>\<rparr>"
    by (rule Provision_success_cases)
  let ?path = "Join [pvDir p, Namespace pvc, Name pvc]"
  from mk have mk': "fs_MkdirAll ?path 511 fs = (r, fs1)"
    by (simp add: fs_os_def)
  have "r = None"
  proof (cases r)
    case None
    then show ?thesis .
  next
    case (Some e)
    with mk' have "\<not> IsExist (Some (PathErr e))"
      by (auto dest: fs_MkdirAll_not_exist)
    with r Some show ?thesis by simp
  qed
  with mk' obtain m where m: "fs1 ?path = Some (Dir m)"
    using fs_MkdirAll_makes_dir by blast
  from ch have "fs_Chmod ?path 511 fs1 = (None, fs')"
    by (simp add: fs_os_def)
  from this m have fs': "fs' = fs1(?path \<mapsto> Dir 511)"
    by (rule fs_Chmod_ok)
  then have d: "fs' ?path = Some (Dir 511)"
    by simp
  then have mk2: "MkdirAll fs_os ?path 511 fs' = (None, fs')"
    by (simp add: fs_os_def fs_MkdirAll_existing)
  from d have "fs_Chmod ?path 511 fs' = (None, fs'(?path \<mapsto> Dir 511))"
    by (rule fs_Chmod_Dir)
  with fs' have ch2: "Chmod fs_os ?path 511 fs' = (None, fs')"
    by (simp add: fs_os_def)
  from Provision_prepared [OF pvc sc policy mk2 _ ch2] pv show ?thesis
    by simp
qed


subsection \<open>The sample inputs evaluated\<close>

lemma Join_sample: "Join [''/data'', ''ns1'', ''pvc-a''] = ''/data/ns1/pvc-a''"
  by code_simp

lemma sample_PVC: "PVC (sample_options ns name policy) = Some (sample_claim ns name)"
  by (simp add: sample_options_def)

lemma sample_StorageClass:
  "StorageClass (sample_options ns name policy) = Some \<lparr>ReclaimPolicy = policy\<rparr>"
  by (simp add: sample_options_def)

lemma sample_path:
  "Join [pvDir sample_provisioner, Namespace (sample_claim ''ns1'' ''pvc-a''),
         Name (sample_claim ''ns1'' ''pvc-a'')] = ''/data/ns1/pvc-a''"
  by (simp add: sample_provisioner_def sample_claim_def Join_sample)



lemma Provision_sample_fs:
  "Provision fs_os sample_provisioner
     (sample_options ''ns1'' ''pvc-a'' (Some ''Delete'')) [''/data'' \<mapsto> Dir 493]
   = (Return (Some \<lparr>Name = ''pvc-0f3a'', Namespace = [],
           Annotations = [''hostPathProvisionerIdentity'' \<mapsto> ''hostpath-provisioner''],
           Spec = \<lparr>HostPath = Some \<lparr>Path = ''/data/ns1/pvc-a''\<rparr>,
                   Capacity = [''storage'' \<mapsto> \<lparr>q_value = 5, q_scale = 9, q_format = ''DecimalSI''\<rparr>],
                   AccessModes = [''ReadWriteOnce''],
                   PersistentVolumeReclaimPolicy = ''Delete''\<rparr>\<rparr>, ProvisioningFinished, None),
      [''/data'' \<mapsto> Dir 493, ''/data/ns1'' \<mapsto> Dir 511, ''/data/ns1/pvc-a'' \<mapsto> Dir 511])"
  by (simp add: Provision_def sample_provisioner_def sample_options_def sample_claim_def
      fs_os_def Join_sample ResourceStorage_def index_def fs_MkdirAll.simps fs_Mkdir_def
      parentDir_def fs_Chmod_def Let_def)

section \<open>Configuration\<close>

text \<open>
  Claim C8. The three configuration values come from the environment variables
  \<open>PROVISIONER_NAME\<close>, \<open>PROVISIONER_DIR\<close> and \<open>PROVISIONER_ISSUER\<close> of the environment
  the process starts in. Each is optional: a variable that is not set gives the
  default \<open>hostpath\<close>, \<open>/data\<close> and \<open>hostpath-provisioner\<close> respectively (as does one
  set to the empty string), and a variable set to a non-empty value gives that
  value. The values are functions of the start environment alone, and the
  provisioner that \<open>main\<close> builds carries them; \<open>Provision\<close> and \<open>Delete\<close> take that
  provisioner and have no access to the environment.
\<close>

theorem configuration_from_environment:
  "(env ''PROVISIONER_NAME'' = None \<longrightarrow> provisionerName env = ''hostpath'')
   \<and> (env ''PROVISIONER_DIR'' = None \<longrightarrow> pvDir_var env = ''/data'')
   \<and> (env ''PROVISIONER_ISSUER'' = None \<longrightarrow> identity_var env = ''hostpath-provisioner'')
   \<and> (\<forall>v. env ''PROVISIONER_NAME'' = Some v \<longrightarrow>
          provisionerName env = (if v = [] then ''hostpath'' else v))
   \<and> (\<forall>v. env ''PROVISIONER_DIR'' = Some v \<longrightarrow>
          pvDir_var env = (if v = [] then ''/data'' else v))
   \<and> (\<forall>v. env ''PROVISIONER_ISSUER'' = Some v \<longrightarrow>
          identity_var env = (if v = [] then ''hostpath-provisioner'' else v))
   \<and> pvDir (main_provisioner env) = pvDir_var env
   \<and> identity (main_provisioner env) = identity_var env"
  by (simp add: provisionerName_def pvDir_var_def identity_var_def getEnv_def Getenv_def
      defaultProvisionerName_def defaultPVDir_def defaultIdentity_def main_provisioner_def)

theorem configuration_from_environment_witness:
  "provisionerName Map.empty = ''hostpath''
   \<and> pvDir_var Map.empty = ''/data''
   \<and> identity_var Map.empty = ''hostpath-provisioner''
   \<and> main_provisioner Map.empty = sample_provisioner
   \<and> provisionerName [''PROVISIONER_NAME'' \<mapsto> ''local''] = ''local''
   \<and> pvDir_var [''PROVISIONER_DIR'' \<mapsto> ''/mnt/pv''] = ''/mnt/pv''
   \<and> identity_var [''PROVISIONER_ISSUER'' \<mapsto> ''node-a''] = ''node-a''
   \<and> pvDir_var [''PROVISIONER_DIR'' \<mapsto> []] = ''/data''"
  using configuration_from_environment [of Map.empty]
    configuration_from_environment [of "[''PROVISIONER_NAME'' \<mapsto> ''local'']"]
    configuration_from_environment [of "[''PROVISIONER_DIR'' \<mapsto> ''/mnt/pv'']"]
    configuration_from_environment [of "[''PROVISIONER_ISSUER'' \<mapsto> ''node-a'']"]
    configuration_from_environment [of "[''PROVISIONER_DIR'' \<mapsto> []]"]
  by (simp add: main_provisioner_def sample_provisioner_def)

section \<open>The backing path\<close>

text \<open>
  Claim C4 (amended). The claim says that for all \<open>(root, namespace, claimName)\<close>
  the path equals \<open>root/namespace/claimName\<close>. The path that \<open>Provision\<close> derives is
  \<open>path.Join(root, namespace, claimName)\<close>: it is what the first call to the
  operating system (\<open>MkdirAll\<close>) receives and what a returned volume records, and it
  depends on nothing but the three strings, so repeated calls for the same claim
  give the same path. \<open>Join\<close> cleans its result, so the path is the literal string
  \<open>root/namespace/claimName\<close> only for components that cleaning leaves alone: a root
  that is a clean path other than \<open>/\<close> and \<open>.\<close>, and a namespace and claim name that
  are plain names.
\<close>

theorem backing_path_is_Join:
  "(\<forall>pvc. PVC options = Some pvc \<longrightarrow>
      take 1 (snd (Provision (script_os reply) p options []))
        = [SysMkdirAll (Join [pvDir p, Namespace pvc, Name pvc]) 511])
   \<and> (\<forall>pv st err w'. Provision os p options w = (Return (Some pv, st, err), w') \<longrightarrow>
        (\<exists>pvc. PVC options = Some pvc
           \<and> HostPath (Spec pv) = Some \<lparr>Path = Join [pvDir p, Namespace pvc, Name pvc]\<rparr>))
   \<and> (Clean root = root \<and> root \<noteq> ''/'' \<and> root \<noteq> ''.'' \<and> plainName ns \<and> plainName name \<longrightarrow>
        Join [root, ns, name] = root @ ''/'' @ ns @ ''/'' @ name)"
proof (intro conjI allI impI)
  fix pvc
  assume "PVC options = Some pvc"
  then show "take 1 (snd (Provision (script_os reply) p options []))
      = [SysMkdirAll (Join [pvDir p, Namespace pvc, Name pvc]) 511]"
    by (simp add: Provision_def script_os_def Let_def split: option.splits)
next
  fix pv st err w'
  assume "Provision os p options w = (Return (Some pv, st, err), w')"
  then show "\<exists>pvc. PVC options = Some pvc
      \<and> HostPath (Spec pv) = Some \<lparr>Path = Join [pvDir p, Namespace pvc, Name pvc]\<rparr>"
    by (elim Provision_success_cases) simp
next
  assume "Clean root = root \<and> root \<noteq> ''/'' \<and> root \<noteq> ''.'' \<and> plainName ns \<and> plainName name"
  then show "Join [root, ns, name] = root @ ''/'' @ ns @ ''/'' @ name"
    by (elim conjE) (rule Join_plain)
qed

theorem backing_path_is_Join_witness:
  "Clean ''/data'' = ''/data'' \<and> plainName ''ns1'' \<and> plainName ''pvc-a''
   \<and> Join [''/data'', ''ns1'', ''pvc-a''] = ''/data/ns1/pvc-a''
   \<and> take 1 (snd (Provision (script_os mkdir_denied) sample_provisioner
                     (sample_options ''ns1'' ''pvc-a'' (Some ''Delete'')) []))
       = [SysMkdirAll ''/data/ns1/pvc-a'' 511]
   \<and> HostPath (Spec (sample_volume
         [''hostPathProvisionerIdentity'' \<mapsto> ''hostpath-provisioner''] ''/data/ns1/pvc-a''))
       = Some \<lparr>Path = ''/data/ns1/pvc-a''\<rparr>"
proof -
  have c: "Clean ''/data'' = ''/data''"
    by code_simp
  have n: "plainName ''ns1''" "plainName ''pvc-a''"
    by (simp_all add: plainName_def)
  note inst = backing_path_is_Join
    [where root = "''/data''" and ns = "''ns1''" and name = "''pvc-a''"
       and reply = mkdir_denied and p = sample_provisioner
       and options = "sample_options ''ns1'' ''pvc-a'' (Some ''Delete'')"
       and os = fs_os and w = "[''/data'' \<mapsto> Dir 493]"]
  from inst c n have j: "Join [''/data'', ''ns1'', ''pvc-a''] = ''/data/ns1/pvc-a''"
    by simp
  from inst sample_PVC [of "''ns1''" "''pvc-a''" "Some ''Delete''"]
  have t: "take 1 (snd (Provision (script_os mkdir_denied) sample_provisioner
                     (sample_options ''ns1'' ''pvc-a'' (Some ''Delete'')) []))
       = [SysMkdirAll ''/data/ns1/pvc-a'' 511]"
    by (simp add: sample_path)
  from inst Provision_sample_fs
  have h: "HostPath (Spec (sample_volume
         [''hostPathProvisionerIdentity'' \<mapsto> ''hostpath-provisioner''] ''/data/ns1/pvc-a''))
       = Some \<lparr>Path = ''/data/ns1/pvc-a''\<rparr>"
    by (simp add: sample_volume_def)
  from c n j t h show ?thesis by simp
qed

text \<open>
  The claim as written fails where cleaning changes the joined string: with
  namespace \<open>..\<close> and claim \<open>etc\<close> under root \<open>/data\<close>, \<open>Provision\<close> creates and opens
  \<open>/etc\<close> and records that path, not \<open>/data/../etc\<close>; with an empty namespace and
  claim name the path is \<open>/data\<close>, not \<open>/data//\<close>.
\<close>

theorem backing_path_literal_counterexample:
  "Provision (script_os (\<lambda>c. None)) sample_provisioner
     (sample_options ''..'' ''etc'' (Some ''Delete'')) []
   = (Return (Some (sample_volume
                [''hostPathProvisionerIdentity'' \<mapsto> ''hostpath-provisioner''] ''/etc''),
              ProvisioningFinished, None),
      [SysMkdirAll ''/etc'' 511, SysChmod ''/etc'' 511])
   \<and> ''/etc'' \<noteq> ''/data'' @ ''/'' @ ''..'' @ ''/'' @ ''etc''
   \<and> Join [''/data'', [], []] = ''/data''
   \<and> ''/data'' \<noteq> ''/data'' @ ''/'' @ [] @ ''/'' @ []"
proof -
  have j: "Join [''/data'', ''..'', ''etc''] = ''/etc''"
    by code_simp
  have k: "Join [''/data'', [], []] = ''/data''"
    by code_simp
  from j k show ?thesis
    by (simp add: Provision_def sample_provisioner_def sample_options_def sample_claim_def
        sample_volume_def script_os_def ResourceStorage_def index_def Let_def)
qed

text \<open>
  Claim C10. \<open>Provision\<close> does not validate the namespace and the claim name. An
  empty one is dropped by the join: joining \<open>root\<close> with two empty strings is joining
  \<open>root\<close> alone, which gives \<open>Clean root\<close> (the root itself when it is a clean path,
  as the default \<open>/data\<close> is; the empty string for an empty root), and an empty
  namespace or claim name alone disappears likewise. With both empty \<open>Provision\<close>
  goes on with that path: its first act is \<open>MkdirAll\<close> on it, whatever the
  operating system answers, and when the two file-system calls on it succeed it
  returns a volume for the root directory.
\<close>

theorem empty_components_dropped:
  "Join [root, [], []] = Join [root]
   \<and> Join [root, [], name] = Join [root, name]
   \<and> Join [root, ns, []] = Join [root, ns]
   \<and> Join [root] = (if root = [] then [] else Clean root)
   \<and> (Clean root = root \<longrightarrow> Join [root, [], []] = root)
   \<and> (\<forall>pvc. PVC options = Some pvc \<and> Namespace pvc = [] \<and> Name pvc = [] \<longrightarrow>
        take 1 (snd (Provision (script_os reply) p options []))
          = [SysMkdirAll (Join [pvDir p]) 511])
   \<and> (\<forall>pvc sc policy w1 w2.
        PVC options = Some pvc \<and> Namespace pvc = [] \<and> Name pvc = []
        \<and> StorageClass options = Some sc \<and> ReclaimPolicy sc = Some policy
        \<and> MkdirAll os (Join [pvDir p]) 511 w = (None, w1)
        \<and> Chmod os (Join [pvDir p]) 511 w1 = (None, w2) \<longrightarrow>
        (\<exists>pv. Provision os p options w = (Return (Some pv, ProvisioningFinished, None), w2)
           \<and> HostPath (Spec pv) = Some \<lparr>Path = Join [pvDir p]\<rparr>))"
proof (intro conjI allI impI)
  show "Join [root, [], []] = Join [root]"
    by (rule Join_drop_both)
  show "Join [root, [], name] = Join [root, name]"
    by (rule Join_drop_namespace)
  show "Join [root, ns, []] = Join [root, ns]"
    by (rule Join_drop_name)
  show "Join [root] = (if root = [] then [] else Clean root)"
    by (rule Join_single)
next
  assume "Clean root = root"
  then show "Join [root, [], []] = root"
    by (auto simp: Join_drop_both Join_single Clean_def)
next
  fix pvc
  assume "PVC options = Some pvc \<and> Namespace pvc = [] \<and> Name pvc = []"
  then show "take 1 (snd (Provision (script_os reply) p options []))
      = [SysMkdirAll (Join [pvDir p]) 511]"
    by (simp add: Provision_def script_os_def Let_def Join_drop_both split: option.splits)
next
  fix pvc sc policy w1 w2
  assume a: "PVC options = Some pvc \<and> Namespace pvc = [] \<and> Name pvc = []
    \<and> StorageClass options = Some sc \<and> ReclaimPolicy sc = Some policy
    \<and> MkdirAll os (Join [pvDir p]) 511 w = (None, w1)
    \<and> Chmod os (Join [pvDir p]) 511 w1 = (None, w2)"
  then have pvc: "PVC options = Some pvc" and sc: "StorageClass options = Some sc"
    and policy: "ReclaimPolicy sc = Some policy"
    and j: "Join [pvDir p, Namespace pvc, Name pvc] = Join [pvDir p]"
    by (simp_all add: Join_drop_both)
  from a j have mk: "MkdirAll os (Join [pvDir p, Namespace pvc, Name pvc]) 511 w = (None, w1)"
    and ch: "Chmod os (Join [pvDir p, Namespace pvc, Name pvc]) 511 w1 = (None, w2)"
    by simp_all
  have "Provision os p options w =
    (Return (Some \<lparr>Name = PVName options, Namespace = [],
           Annotations = [''hostPathProvisionerIdentity'' \<mapsto> identity p],
           Spec = \<lparr>HostPath = Some \<lparr>Path = Join [pvDir p, Namespace pvc, Name pvc]\<rparr>,
                   Capacity = [ResourceStorage \<mapsto>
                       index (Requests (Resources (pvc_Spec pvc))) ResourceStorage],
                   AccessModes = pvc_AccessModes (pvc_Spec pvc),
                   PersistentVolumeReclaimPolicy = policy\<rparr>\<rparr>,
             ProvisioningFinished, None), w2)"
    using pvc sc policy mk _ ch by (rule Provision_prepared) simp
  then show "\<exists>pv. Provision os p options w = (Return (Some pv, ProvisioningFinished, None), w2)
      \<and> HostPath (Spec pv) = Some \<lparr>Path = Join [pvDir p]\<rparr>"
    by (simp add: j)
qed

theorem empty_components_dropped_witness:
  "Clean ''/data'' = ''/data''
   \<and> Join [''/data'', [], []] = ''/data''
   \<and> take 1 (snd (Provision (script_os mkdir_denied) sample_provisioner
                     (sample_options [] [] (Some ''Delete'')) []))
       = [SysMkdirAll ''/data'' 511]
   \<and> (\<exists>pv. Provision fs_os sample_provisioner (sample_options [] [] (Some ''Delete''))
              [''/data'' \<mapsto> Dir 493]
            = (Return (Some pv, ProvisioningFinished, None), [''/data'' \<mapsto> Dir 511])
          \<and> HostPath (Spec pv) = Some \<lparr>Path = ''/data''\<rparr>)"
proof -
  have c: "Clean ''/data'' = ''/data''"
    by code_simp
  note inst = empty_components_dropped
    [where root = "''/data''" and ns = "''ns1''" and name = "''pvc-a''"
       and p = sample_provisioner and os = fs_os and reply = mkdir_denied
       and options = "sample_options [] [] (Some ''Delete'')"
       and w = "[''/data'' \<mapsto> Dir 493]"]
  from inst c have j: "Join [''/data'', [], []] = ''/data''"
    by simp
  from inst c have s: "Join [''/data''] = ''/data''"
    by simp
  have mk: "MkdirAll fs_os ''/data'' 511 [''/data'' \<mapsto> Dir 493] = (None, [''/data'' \<mapsto> Dir 493])"
    by (simp add: fs_os_def fs_MkdirAll_existing)
  have ch: "Chmod fs_os ''/data'' 511 [''/data'' \<mapsto> Dir 493] = (None, [''/data'' \<mapsto> Dir 511])"
    by (simp add: fs_os_def fs_Chmod_def)
  from inst s mk ch
  have "\<exists>pv. Provision fs_os sample_provisioner (sample_options [] [] (Some ''Delete''))
              [''/data'' \<mapsto> Dir 493]
            = (Return (Some pv, ProvisioningFinished, None), [''/data'' \<mapsto> Dir 511])
          \<and> HostPath (Spec pv) = Some \<lparr>Path = ''/data''\<rparr>"
    by (simp add: sample_options_def sample_claim_def sample_provisioner_def)
  moreover from inst s
  have "take 1 (snd (Provision (script_os mkdir_denied) sample_provisioner
                     (sample_options [] [] (Some ''Delete'')) []))
       = [SysMkdirAll ''/data'' 511]"
    by (simp add: sample_options_def sample_claim_def sample_provisioner_def)
  ultimately show ?thesis
    using c j by simp
qed

section \<open>Provision\<close>

text \<open>
  Claim C6. Every volume that \<open>Provision\<close> returns carries the provisioner's
  identity under the annotation key \<open>hostPathProvisionerIdentity\<close>; its capacity is
  the one entry \<open>storage\<close>, holding what the claim's resource requests hold under
  \<open>storage\<close>; its access modes are the claim's and its reclaim policy the storage
  class's; its \<open>HostPath\<close> source holds the joined path; its name is the requested
  volume name. It comes with the state \<open>ProvisioningFinished\<close> and no error.
\<close>

theorem Provision_descriptor:
  assumes "Provision os p options w = (Return (Some pv, st, err), w')"
  shows "\<exists>pvc sc policy.
      PVC options = Some pvc \<and> StorageClass options = Some sc
      \<and> ReclaimPolicy sc = Some policy
      \<and> Annotations pv ''hostPathProvisionerIdentity'' = Some (identity p)
      \<and> Capacity (Spec pv) =
          [ResourceStorage \<mapsto> index (Requests (Resources (pvc_Spec pvc))) ResourceStorage]
      \<and> AccessModes (Spec pv) = pvc_AccessModes (pvc_Spec pvc)
      \<and> PersistentVolumeReclaimPolicy (Spec pv) = policy
      \<and> HostPath (Spec pv) = Some \<lparr>Path = Join [pvDir p, Namespace pvc, Name pvc]\<rparr>
      \<and> Name pv = PVName options
      \<and> st = ProvisioningFinished \<and> err = None"
  using assms by (elim Provision_success_cases) simp

theorem Provision_descriptor_witness:
  "Provision fs_os sample_provisioner (sample_options ''ns1'' ''pvc-a'' (Some ''Delete''))
     [''/data'' \<mapsto> Dir 493]
   = (Return (Some (sample_volume [''hostPathProvisionerIdentity'' \<mapsto> ''hostpath-provisioner'']
                      ''/data/ns1/pvc-a''),
              ProvisioningFinished, None),
      [''/data'' \<mapsto> Dir 493, ''/data/ns1'' \<mapsto> Dir 511, ''/data/ns1/pvc-a'' \<mapsto> Dir 511])
   \<and> Annotations (sample_volume [''hostPathProvisionerIdentity'' \<mapsto> ''hostpath-provisioner'']
                      ''/data/ns1/pvc-a'') ''hostPathProvisionerIdentity''
       = Some (identity sample_provisioner)
   \<and> Capacity (Spec (sample_volume [''hostPathProvisionerIdentity'' \<mapsto> ''hostpath-provisioner'']
                      ''/data/ns1/pvc-a''))
       = [''storage'' \<mapsto> \<lparr>q_value = 5, q_scale = 9, q_format = ''DecimalSI''\<rparr>]"
  using Provision_descriptor [OF Provision_sample_fs] Provision_sample_fs
  by (simp add: sample_volume_def sample_provisioner_def)

text \<open>
  Claim C7. When \<open>MkdirAll\<close> fails with anything other than "already exists", or
  when \<open>Chmod\<close> fails, \<open>Provision\<close> returns no volume and the very \<open>PathError\<close> of
  the failed call (operation, path and cause as the operating system reported
  them). The state of the operating system is the one the failed call left: no
  call follows it, so nothing is retried and, after a failed \<open>MkdirAll\<close>, \<open>Chmod\<close>
  is never attempted.
\<close>

theorem Provision_reports_storage_errors:
  assumes "PVC options = Some pvc"
    and "pvPath = Join [pvDir p, Namespace pvc, Name pvc]"
  shows
    "(\<forall>e w1. MkdirAll os pvPath 511 w = (Some e, w1) \<and> \<not> IsExist (Some (PathErr e)) \<longrightarrow>
        Provision os p options w
          = (Return (None, ProvisioningFinished, Some (PathErr e)), w1))
     \<and> (\<forall>r w1 e w2.
          MkdirAll os pvPath 511 w = (r, w1) \<and> (r = None \<or> IsExist (map_option PathErr r))
          \<and> Chmod os pvPath 511 w1 = (Some e, w2) \<longrightarrow>
          Provision os p options w
            = (Return (None, ProvisioningFinished, Some (PathErr e)), w2))"
  using assms by (auto simp: Provision_def Let_def)

theorem Provision_reports_storage_errors_witness:
  "Provision fs_os sample_provisioner (sample_options ''ns1'' ''pvc-a'' (Some ''Delete''))
     [''/data'' \<mapsto> File 420]
   = (Return (None, ProvisioningFinished,
        Some (PathErr \<lparr>pe_Op = ''mkdir'', pe_Path = ''/data'', pe_Err = ENOTDIR\<rparr>)),
      [''/data'' \<mapsto> File 420])
   \<and> Provision (script_os chmod_denied) sample_provisioner
        (sample_options ''ns1'' ''pvc-a'' (Some ''Delete'')) []
      = (Return (None, ProvisioningFinished,
           Some (PathErr \<lparr>pe_Op = ''chmod'', pe_Path = ''/data/ns1/pvc-a'', pe_Err = EPERM\<rparr>)),
         [SysMkdirAll ''/data/ns1/pvc-a'' 511, SysChmod ''/data/ns1/pvc-a'' 511])
   \<and> Provision (script_os mkdir_denied) sample_provisioner
        (sample_options ''ns1'' ''pvc-a'' (Some ''Delete'')) []
      = (Return (None, ProvisioningFinished,
           Some (PathErr \<lparr>pe_Op = ''mkdir'', pe_Path = ''/data/ns1/pvc-a'', pe_Err = EACCES\<rparr>)),
         [SysMkdirAll ''/data/ns1/pvc-a'' 511])"
  using
    Provision_reports_storage_errors
      [where os = "script_os mkdir_denied" and w = "[]",
       OF sample_PVC [of "''ns1''" "''pvc-a''" "Some ''Delete''"] sample_path [symmetric]]
    Provision_reports_storage_errors
      [where os = fs_os and w = "[''/data'' \<mapsto> File 420]",
       OF sample_PVC [of "''ns1''" "''pvc-a''" "Some ''Delete''"] sample_path [symmetric]]
    Provision_reports_storage_errors
      [where os = "script_os chmod_denied" and w = "[]",
       OF sample_PVC [of "''ns1''" "''pvc-a''" "Some ''Delete''"] sample_path [symmetric]]
  by (simp add: fs_os_def script_os_def chmod_denied_def mkdir_denied_def fs_MkdirAll.simps
      parentDir_def)

text \<open>
  Claim C5. An "already exists" error of \<open>MkdirAll\<close> is treated as success:
  \<open>Provision\<close> behaves as it does under an operating system whose \<open>MkdirAll\<close>
  reports success and leaves the same state. On the sample file system a
  directory that is already there never makes \<open>Provision\<close> fail, and after a
  successful \<open>Provision\<close> a second one for the same claim succeeds as well, returns
  the same volume and leaves the file system as the first left it. Any two
  successful runs for the same provisioner and request return the same volume.
\<close>

theorem Provision_idempotent:
  "(\<forall>pvc e w1. PVC options = Some pvc
        \<and> MkdirAll os (Join [pvDir p, Namespace pvc, Name pvc]) 511 w = (Some e, w1)
        \<and> IsExist (Some (PathErr e)) \<longrightarrow>
        Provision os p options w
          = Provision (os\<lparr>MkdirAll := \<lambda>path perm w. (None, w1)\<rparr>) p options w)
   \<and> (\<forall>pvc sc policy m. PVC options = Some pvc \<and> StorageClass options = Some sc
        \<and> ReclaimPolicy sc = Some policy
        \<and> fs (Join [pvDir p, Namespace pvc, Name pvc]) = Some (Dir m) \<longrightarrow>
        (\<exists>pv. Provision fs_os p options fs =
           (Return (Some pv, ProvisioningFinished, None),
            fs(Join [pvDir p, Namespace pvc, Name pvc] \<mapsto> Dir 511))))
   \<and> (\<forall>pv st err fs'. Provision fs_os p options fs = (Return (Some pv, st, err), fs') \<longrightarrow>
        Provision fs_os p options fs' = (Return (Some pv, ProvisioningFinished, None), fs'))
   \<and> (\<forall>pv st err w' pv' st' err' v'.
        Provision os p options w = (Return (Some pv, st, err), w')
        \<and> Provision os p options v = (Return (Some pv', st', err'), v') \<longrightarrow> pv' = pv)"
proof (intro conjI allI impI)
  fix pvc e w1
  assume "PVC options = Some pvc
    \<and> MkdirAll os (Join [pvDir p, Namespace pvc, Name pvc]) 511 w = (Some e, w1)
    \<and> IsExist (Some (PathErr e))"
  then show "Provision os p options w
      = Provision (os\<lparr>MkdirAll := \<lambda>path perm w. (None, w1)\<rparr>) p options w"
    by (simp add: Provision_IsExist_ignored)
next
  fix pvc sc policy m
  assume "PVC options = Some pvc \<and> StorageClass options = Some sc
    \<and> ReclaimPolicy sc = Some policy
    \<and> fs (Join [pvDir p, Namespace pvc, Name pvc]) = Some (Dir m)"
  then show "\<exists>pv. Provision fs_os p options fs =
      (Return (Some pv, ProvisioningFinished, None),
       fs(Join [pvDir p, Namespace pvc, Name pvc] \<mapsto> Dir 511))"
    by (elim conjE) (rule Provision_fs_existing)
next
  fix pv st err fs'
  assume "Provision fs_os p options fs = (Return (Some pv, st, err), fs')"
  then show "Provision fs_os p options fs' = (Return (Some pv, ProvisioningFinished, None), fs')"
    by (rule Provision_fs_retry)
next
  fix pv st err w' pv' st' err' v'
  assume "Provision os p options w = (Return (Some pv, st, err), w')
    \<and> Provision os p options v = (Return (Some pv', st', err'), v')"
  then show "pv' = pv"
    by (elim conjE) (rule Provision_descriptor_determined)
qed

theorem Provision_idempotent_witness:
  "Provision fs_os sample_provisioner (sample_options ''ns1'' ''pvc-a'' (Some ''Delete''))
     [''/data'' \<mapsto> Dir 493]
   = (Return (Some (sample_volume [''hostPathProvisionerIdentity'' \<mapsto> ''hostpath-provisioner'']
                      ''/data/ns1/pvc-a''),
              ProvisioningFinished, None),
      [''/data'' \<mapsto> Dir 493, ''/data/ns1'' \<mapsto> Dir 511, ''/data/ns1/pvc-a'' \<mapsto> Dir 511])
   \<and> Provision fs_os sample_provisioner (sample_options ''ns1'' ''pvc-a'' (Some ''Delete''))
       [''/data'' \<mapsto> Dir 493, ''/data/ns1'' \<mapsto> Dir 511, ''/data/ns1/pvc-a'' \<mapsto> Dir 511]
   = (Return (Some (sample_volume [''hostPathProvisionerIdentity'' \<mapsto> ''hostpath-provisioner'']
                      ''/data/ns1/pvc-a''),
              ProvisioningFinished, None),
      [''/data'' \<mapsto> Dir 493, ''/data/ns1'' \<mapsto> Dir 511, ''/data/ns1/pvc-a'' \<mapsto> Dir 511])
   \<and> IsExist (Some (PathErr \<lparr>pe_Op = ''mkdir'', pe_Path = ''/data/ns1/pvc-a'', pe_Err = EEXIST\<rparr>))
   \<and> Provision (script_os already_exists) sample_provisioner
        (sample_options ''ns1'' ''pvc-a'' (Some ''Delete'')) []
      = Provision
          (script_os already_exists
             \<lparr>MkdirAll := \<lambda>path perm w. (None, [SysMkdirAll ''/data/ns1/pvc-a'' 511])\<rparr>)
          sample_provisioner (sample_options ''ns1'' ''pvc-a'' (Some ''Delete'')) []"
proof -
  note inst = Provision_idempotent
    [where os = "script_os already_exists" and w = "[]" and p = sample_provisioner
       and options = "sample_options ''ns1'' ''pvc-a'' (Some ''Delete'')"
       and fs = "[''/data'' \<mapsto> Dir 493]"]
  have first: "Provision fs_os sample_provisioner
      (sample_options ''ns1'' ''pvc-a'' (Some ''Delete'')) [''/data'' \<mapsto> Dir 493]
    = (Return (Some (sample_volume [''hostPathProvisionerIdentity'' \<mapsto> ''hostpath-provisioner'']
                       ''/data/ns1/pvc-a''),
               ProvisioningFinished, None),
       [''/data'' \<mapsto> Dir 493, ''/data/ns1'' \<mapsto> Dir 511, ''/data/ns1/pvc-a'' \<mapsto> Dir 511])"
    using Provision_sample_fs by (simp add: sample_volume_def)
  from inst first have second: "Provision fs_os sample_provisioner
      (sample_options ''ns1'' ''pvc-a'' (Some ''Delete''))
      [''/data'' \<mapsto> Dir 493, ''/data/ns1'' \<mapsto> Dir 511, ''/data/ns1/pvc-a'' \<mapsto> Dir 511]
    = (Return (Some (sample_volume [''hostPathProvisionerIdentity'' \<mapsto> ''hostpath-provisioner'']
                       ''/data/ns1/pvc-a''),
               ProvisioningFinished, None),
       [''/data'' \<mapsto> Dir 493, ''/data/ns1'' \<mapsto> Dir 511, ''/data/ns1/pvc-a'' \<mapsto> Dir 511])"
    by blast
  have ex: "IsExist (Some (PathErr
      \<lparr>pe_Op = ''mkdir'', pe_Path = ''/data/ns1/pvc-a'', pe_Err = EEXIST\<rparr>))"
    by simp
  have mk: "MkdirAll (script_os already_exists)
      (Join [pvDir sample_provisioner, Namespace (sample_claim ''ns1'' ''pvc-a''),
             Name (sample_claim ''ns1'' ''pvc-a'')]) 511 []
    = (Some \<lparr>pe_Op = ''mkdir'', pe_Path = ''/data/ns1/pvc-a'', pe_Err = EEXIST\<rparr>,
       [SysMkdirAll ''/data/ns1/pvc-a'' 511])"
    by (simp add: sample_path script_os_def already_exists_def)
  from inst sample_PVC [of "''ns1''" "''pvc-a''" "Some ''Delete''"] mk ex
  have third: "Provision (script_os already_exists) sample_provisioner
        (sample_options ''ns1'' ''pvc-a'' (Some ''Delete'')) []
      = Provision
          (script_os already_exists
             \<lparr>MkdirAll := \<lambda>path perm w. (None, [SysMkdirAll ''/data/ns1/pvc-a'' 511])\<rparr>)
          sample_provisioner (sample_options ''ns1'' ''pvc-a'' (Some ''Delete'')) []"
    by blast
  from first second ex third show ?thesis
    by (intro conjI)
qed

text \<open>
  Claim C9 (amended). The claim says that \<open>Provision\<close> panics whenever the storage
  class has no reclaim policy. The dereference stands after the two file-system
  calls, so: for a request with a claim and a storage class whose reclaim policy
  is set, \<open>Provision\<close> never panics; when the reclaim policy is absent, it panics
  exactly if \<open>MkdirAll\<close> succeeded (or reported "already exists") and \<open>Chmod\<close>
  succeeded, the directory being created and opened by then, and otherwise it
  returns the error of the failed call without reaching the dereference.
\<close>

theorem Provision_reclaim_policy_dereference:
  assumes "PVC options = Some pvc" and "StorageClass options = Some sc"
    and "pvPath = Join [pvDir p, Namespace pvc, Name pvc]"
    and "MkdirAll os pvPath 511 w = (r, w1)" and "Chmod os pvPath 511 w1 = (r2, w2)"
  shows "(ReclaimPolicy sc \<noteq> None \<longrightarrow> fst (Provision os p options w) \<noteq> Panic)
    \<and> (ReclaimPolicy sc = None \<longrightarrow>
         (if (r = None \<or> IsExist (map_option PathErr r)) \<and> r2 = None
          then Provision os p options w = (Panic, w2)
          else \<exists>e w'. Provision os p options w
                 = (Return (None, ProvisioningFinished, Some (PathErr e)), w')))"
  using assms by (auto simp: Provision_def Let_def)

theorem Provision_reclaim_policy_dereference_witness:
  "fst (Provision (script_os (\<lambda>c. None)) sample_provisioner
          (sample_options ''ns1'' ''pvc-a'' (Some ''Delete'')) []) \<noteq> Panic
   \<and> Provision (script_os (\<lambda>c. None)) sample_provisioner
        (sample_options ''ns1'' ''pvc-a'' None) []
      = (Panic, [SysMkdirAll ''/data/ns1/pvc-a'' 511, SysChmod ''/data/ns1/pvc-a'' 511])
   \<and> Provision fs_os sample_provisioner (sample_options ''ns1'' ''pvc-a'' None)
        [''/data'' \<mapsto> Dir 493]
      = (Panic,
         [''/data'' \<mapsto> Dir 493, ''/data/ns1'' \<mapsto> Dir 511, ''/data/ns1/pvc-a'' \<mapsto> Dir 511])"
  using
    Provision_reclaim_policy_dereference
      [where os = "script_os (\<lambda>c. None)" and w = "[]"
         and ?w1.0 = "[SysMkdirAll ''/data/ns1/pvc-a'' 511]" and r = None and ?r2.0 = None
         and ?w2.0 = "[SysMkdirAll ''/data/ns1/pvc-a'' 511, SysChmod ''/data/ns1/pvc-a'' 511]",
       OF sample_PVC [of "''ns1''" "''pvc-a''" "Some ''Delete''"] sample_StorageClass
          sample_path [symmetric]]
    Provision_reclaim_policy_dereference
      [where os = "script_os (\<lambda>c. None)" and w = "[]"
         and ?w1.0 = "[SysMkdirAll ''/data/ns1/pvc-a'' 511]" and r = None and ?r2.0 = None
         and ?w2.0 = "[SysMkdirAll ''/data/ns1/pvc-a'' 511, SysChmod ''/data/ns1/pvc-a'' 511]",
       OF sample_PVC [of "''ns1''" "''pvc-a''" None] sample_StorageClass
          sample_path [symmetric]]
    Provision_reclaim_policy_dereference
      [where os = fs_os and w = "[''/data'' \<mapsto> Dir 493]"
         and ?w1.0 = "[''/data'' \<mapsto> Dir 493, ''/data/ns1'' \<mapsto> Dir 511,
                       ''/data/ns1/pvc-a'' \<mapsto> Dir 511]"
         and r = None and ?r2.0 = None
         and ?w2.0 = "[''/data'' \<mapsto> Dir 493, ''/data/ns1'' \<mapsto> Dir 511,
                       ''/data/ns1/pvc-a'' \<mapsto> Dir 511]",
       OF sample_PVC [of "''ns1''" "''pvc-a''" None] sample_StorageClass
          sample_path [symmetric]]
  by (simp add: script_os_def fs_os_def fs_MkdirAll.simps fs_Mkdir_def fs_Chmod_def
      parentDir_def)

text \<open>
  With no reclaim policy and a root that is a plain file, or a \<open>MkdirAll\<close> that is
  refused, \<open>Provision\<close> returns an error and does not panic.
\<close>

theorem Provision_nil_policy_counterexample:
  "ReclaimPolicy \<lparr>ReclaimPolicy = None\<rparr> = None
   \<and> StorageClass (sample_options ''ns1'' ''pvc-a'' None) = Some \<lparr>ReclaimPolicy = None\<rparr>
   \<and> Provision fs_os sample_provisioner (sample_options ''ns1'' ''pvc-a'' None)
        [''/data'' \<mapsto> File 420]
      = (Return (None, ProvisioningFinished,
           Some (PathErr \<lparr>pe_Op = ''mkdir'', pe_Path = ''/data'', pe_Err = ENOTDIR\<rparr>)),
         [''/data'' \<mapsto> File 420])
   \<and> Provision (script_os mkdir_denied) sample_provisioner
        (sample_options ''ns1'' ''pvc-a'' None) []
      = (Return (None, ProvisioningFinished,
           Some (PathErr \<lparr>pe_Op = ''mkdir'', pe_Path = ''/data/ns1/pvc-a'', pe_Err = EACCES\<rparr>)),
         [SysMkdirAll ''/data/ns1/pvc-a'' 511])"
  by (simp add: Provision_def Let_def sample_options_def sample_claim_def sample_provisioner_def
      Join_sample fs_os_def script_os_def mkdir_denied_def fs_MkdirAll.simps parentDir_def)

section \<open>Delete\<close>

text \<open>
  Claim C1. A volume whose annotation \<open>hostPathProvisionerIdentity\<close> is present
  but differs from the provisioner's identity is declined: \<open>Delete\<close> returns the
  controller's \<open>IgnoredError\<close> (the "not mine" outcome, a value distinct from every
  \<open>errors.New\<close>, wrapped or path error), and, whatever the operating system is, its
  state is the one \<open>Delete\<close> started in: no call was made, nothing was removed.
\<close>

theorem Delete_declines_foreign_volume:
  assumes "Annotations v ''hostPathProvisionerIdentity'' = Some ann"
    and "ann \<noteq> identity p"
  shows "Delete os p (Some v) w =
    (Return (Some (IgnoredError ''identity annotation on PV does not match ours'')), w)"
  using assms by (simp add: Delete_def)

theorem Delete_declines_foreign_volume_witness:
  "Annotations
     (sample_volume [''hostPathProvisionerIdentity'' \<mapsto> ''someone-else''] ''/data/ns1/pvc-a'')
     ''hostPathProvisionerIdentity'' = Some ''someone-else''
   \<and> ''someone-else'' \<noteq> identity sample_provisioner
   \<and> Delete fs_os sample_provisioner
        (Some (sample_volume [''hostPathProvisionerIdentity'' \<mapsto> ''someone-else'']
                 ''/data/ns1/pvc-a''))
        sample_fs
      = (Return (Some (IgnoredError ''identity annotation on PV does not match ours'')),
         sample_fs)
   \<and> Delete (script_os (\<lambda>c. None)) sample_provisioner
        (Some (sample_volume [''hostPathProvisionerIdentity'' \<mapsto> ''someone-else'']
                 ''/data/ns1/pvc-a''))
        []
      = (Return (Some (IgnoredError ''identity annotation on PV does not match ours'')), [])"
  using
    Delete_declines_foreign_volume
      [of "sample_volume [''hostPathProvisionerIdentity'' \<mapsto> ''someone-else''] ''/data/ns1/pvc-a''"
          "''someone-else''" sample_provisioner fs_os sample_fs]
    Delete_declines_foreign_volume
      [of "sample_volume [''hostPathProvisionerIdentity'' \<mapsto> ''someone-else''] ''/data/ns1/pvc-a''"
          "''someone-else''" sample_provisioner "script_os (\<lambda>c. None)" "[]"]
  by (simp add: sample_volume_def sample_provisioner_def)

text \<open>
  Claim C2. A volume without the annotation \<open>hostPathProvisionerIdentity\<close> makes
  \<open>Delete\<close> fail with a plain error made by \<open>errors.New\<close>, whose message begins with
  \<open>identity annotation not found\<close> (in full: \<open>identity annotation not found on PV\<close>);
  the state of the operating system is untouched, so nothing was removed.
\<close>

theorem Delete_rejects_missing_annotation:
  assumes "Annotations v ''hostPathProvisionerIdentity'' = None"
  shows "Delete os p (Some v) w =
      (Return (Some (New ''identity annotation not found on PV'')), w)
    \<and> prefix ''identity annotation not found'' ''identity annotation not found on PV''"
  using assms by (simp add: Delete_def)

theorem Delete_rejects_missing_annotation_witness:
  "Annotations (sample_volume Map.empty ''/data/ns1/pvc-a'') ''hostPathProvisionerIdentity''
     = None
   \<and> Delete fs_os sample_provisioner (Some (sample_volume Map.empty ''/data/ns1/pvc-a''))
        sample_fs
      = (Return (Some (New ''identity annotation not found on PV'')), sample_fs)
   \<and> Delete (script_os (\<lambda>c. None)) sample_provisioner
        (Some (sample_volume Map.empty ''/data/ns1/pvc-a'')) []
      = (Return (Some (New ''identity annotation not found on PV'')), [])"
  using
    Delete_rejects_missing_annotation
      [of "sample_volume Map.empty ''/data/ns1/pvc-a''" fs_os sample_provisioner sample_fs]
    Delete_rejects_missing_annotation
      [of "sample_volume Map.empty ''/data/ns1/pvc-a''" "script_os (\<lambda>c. None)"
          sample_provisioner "[]"]
  by (simp add: sample_volume_def)




end
